theory Spec2Isabelle
  imports Main "HOL-Library.Sublist"
begin

section \<open>Data model\<close>

text \<open>
  A thrown JavaScript \<^verbatim>\<open>Error(message)\<close>. Every \<^verbatim>\<open>throw\<close> and every
  rejected promise of the source is the \<open>Inl\<close> branch of a result \<open>error + 'a\<close>.
\<close>

datatype error = Error string

text \<open>
  \<^verbatim>\<open>src/types/patient.ts\<close>: interface \<^verbatim>\<open>Patient\<close>. An optional property
  (\<^verbatim>\<open>firstName?: string\<close>) is \<open>None\<close> when it is \<^verbatim>\<open>undefined\<close>. The field
  \<^verbatim>\<open>id\<close> is named \<open>id_Patient\<close>, and \<^verbatim>\<open>type\<close> of a phone \<open>type_Phone\<close>.
\<close>

record Address =
  line1 :: "string option"
  city :: "string option"
  postcode :: "string option"

record Phone =
  type_Phone :: string
  number :: string

record Patient =
  id_Patient :: string
  firstName :: "string option"
  lastName :: "string option"
  email :: "string option"
  dob :: "string option"
  gender :: "string option"
  address :: "Address option"
  phones :: "Phone list option"

text \<open>
  Messages. \<^verbatim>\<open>BaseMessage\<close> is the message class of the chat library; the nodes read
  only its \<^verbatim>\<open>content\<close>, which is either a plain string or a list of structured content
  blocks. The role tag distinguishes system, user-authored and assistant messages.
\<close>

datatype Role = System | User | Assistant

datatype ContentBlock = ContentBlock string string

datatype MessageContent = Str string | Blocks "ContentBlock list"

record BaseMessage =
  role :: Role
  content :: MessageContent

definition SystemMessage :: "string \<Rightarrow> BaseMessage" where
  "SystemMessage prompt = \<lparr>role = System, content = Str prompt\<rparr>"

text \<open>
  \<^verbatim>\<open>src/state.ts\<close>: the state has the channels \<^verbatim>\<open>messages\<close> and \<^verbatim>\<open>user\<close>
  (\<^verbatim>\<open>Patient | null\<close>). An update is partial: a key that the returned object does not
  have is \<open>None\<close>; the value of a present \<^verbatim>\<open>user\<close> key is again \<^verbatim>\<open>Patient | null\<close>.
\<close>

record AgentState =
  messages :: "BaseMessage list"
  user :: "Patient option"

record AgentStateUpdate =
  messages_Update :: "BaseMessage list option"
  user_Update :: "Patient option option"

definition empty_Update :: AgentStateUpdate where
  "empty_Update = \<lparr>messages_Update = None, user_Update = None\<rparr>"

text \<open>The variables of \<^verbatim>\<open>process.env\<close> that the source reads.\<close>

record ProcessEnv =
  OPENROUTER_API_KEY :: "string option"
  OPENROUTER_BASE_URL :: "string option"
  MODEL_NAME :: "string option"
  SYSTEM_PROMPT :: "string option"
  USE_MOCK_SEMBLE :: "string option"

text \<open>
  \<^verbatim>\<open>src/nodes/conversation.ts\<close>: interface \<^verbatim>\<open>MemoryItem\<close>, the value the node writes.
  What a search returns is cast to \<^verbatim>\<open>MemoryItem\<close> unchecked and read with
  \<^verbatim>\<open>item?.text\<close>: the value of an item may be missing, and so may its \<^verbatim>\<open>text\<close>.
\<close>

record MemoryItem =
  text_Item :: string
  createdAt :: string

record StoredValue =
  text_Stored :: "string option"

record SearchItem =
  value_Item :: "StoredValue option"

text \<open>
  The long-term store of the runtime configuration (\<^verbatim>\<open>config.store\<close>), an external
  collaborator: \<^verbatim>\<open>search(namespace, {limit})\<close> and \<^verbatim>\<open>put(namespace, key, value)\<close>,
  each of which may throw. The guard \<^verbatim>\<open>memories && ...\<close> of the source admits a
  \<^verbatim>\<open>null\<close> search result, which is \<open>Inr None\<close>.
\<close>

record BaseStore =
  search :: "string list \<Rightarrow> nat \<Rightarrow> error + SearchItem list option"
  put :: "string list \<Rightarrow> string \<Rightarrow> MemoryItem \<Rightarrow> error + unit"

text \<open>\<^verbatim>\<open>config.configurable\<close> and the runtime configuration of a node.\<close>

record Configurable =
  model :: "string option"
  clientId :: "string option"
  systemPrompt :: "string option"

record LangGraphRunnableConfig =
  configurable :: "Configurable option"
  store :: "BaseStore option"

text \<open>
  The chat model \<^verbatim>\<open>new ChatOpenAI({model, apiKey, configuration: {baseURL}})\<close>: the
  three settings it is built from. Its \<^verbatim>\<open>invoke\<close> is the external provider call.
\<close>

record ChatOpenAI =
  model_Chat :: string
  apiKey_Chat :: string
  baseURL_Chat :: string

text \<open>
  \<^verbatim>\<open>src/services/llm/openrouter.service.ts\<close>: the two private fields of
  \<^verbatim>\<open>OpenRouterLLMService\<close>.
\<close>

record OpenRouterLLMService =
  apiKey :: string
  baseURL :: string

text \<open>
  \<^verbatim>\<open>src/types/services.ts\<close>: \<^verbatim>\<open>ISembleService\<close> has the one method
  \<^verbatim>\<open>getUser(userId): Promise<Patient | null>\<close>, which may reject.
\<close>

type_synonym ISembleService = "string \<Rightarrow> error + Patient option"

text \<open>
  \<^verbatim>\<open>src/providers/index.ts\<close>: the two module-level variables of the provider registry,
  \<^verbatim>\<open>null\<close> until the first call of the matching getter.
\<close>

record Providers =
  sembleService :: "ISembleService option"
  llmService :: "OpenRouterLLMService option"

definition initial_Providers :: Providers where
  "initial_Providers = \<lparr>sembleService = None, llmService = None\<rparr>"

text \<open>
  What a node needs from outside: the process environment, the provider's answer to
  \<^verbatim>\<open>llm.invoke(messages)\<close>, and the clock, read as \<^verbatim>\<open>Date.now()\<close> (milliseconds since
  the epoch) and as \<^verbatim>\<open>new Date().toISOString()\<close>.
\<close>

record Runtime =
  env :: ProcessEnv
  invoke :: "ChatOpenAI \<Rightarrow> BaseMessage list \<Rightarrow> error + BaseMessage"
  Date_now :: int
  toISOString :: string

text \<open>The calls a node makes on its external collaborators, in the order it makes them.\<close>

datatype Call =
  Search "string list" nat
| Invoke ChatOpenAI "BaseMessage list"
| Put "string list" string MemoryItem
| GetUser string

record 'a Outcome =
  result :: "error + 'a"
  calls :: "Call list"
  providers :: Providers

section \<open>JavaScript string and array primitives\<close>

text \<open>\<^verbatim>\<open>Boolean(x)\<close> for \<^verbatim>\<open>x: string | undefined\<close>: false for undefined and for "".\<close>

definition truthy :: "string option \<Rightarrow> bool" where
  "truthy x = (case x of None \<Rightarrow> False | Some s \<Rightarrow> s \<noteq> [])"

text \<open>\<^verbatim>\<open>xs.filter(Boolean)\<close> on an array of \<^verbatim>\<open>string | undefined\<close>.\<close>

fun filter_Boolean :: "string option list \<Rightarrow> string list" where
  "filter_Boolean [] = []"
| "filter_Boolean (None # xs) = filter_Boolean xs"
| "filter_Boolean (Some s # xs) = (if s = [] then filter_Boolean xs else s # filter_Boolean xs)"

text \<open>\<^verbatim>\<open>xs.join(sep)\<close> on an array of strings.\<close>

fun join :: "string \<Rightarrow> string list \<Rightarrow> string" where
  "join sep [] = []"
| "join sep [x] = x"
| "join sep (x # y # ys) = x @ sep @ join sep (y # ys)"

text \<open>A template literal renders \<^verbatim>\<open>undefined\<close> as the text "undefined".\<close>

definition interpolate :: "string option \<Rightarrow> string" where
  "interpolate x = (case x of None \<Rightarrow> ''undefined'' | Some s \<Rightarrow> s)"

text \<open>
  \<^verbatim>\<open>s.toLowerCase()\<close>. Strings are sequences of bytes here (UTF-8); the letters A to Z
  go to a to z and every other byte stays. The only use of the result is a search for the
  ASCII word "remember", none of whose letters is the lower case of a non-ASCII character.
\<close>

definition toLowerCase_char :: "char \<Rightarrow> char" where
  "toLowerCase_char c =
     (case map_of (zip ''ABCDEFGHIJKLMNOPQRSTUVWXYZ'' ''abcdefghijklmnopqrstuvwxyz'') c of
        None \<Rightarrow> c
      | Some d \<Rightarrow> d)"

definition toLowerCase :: "string \<Rightarrow> string" where
  "toLowerCase s = map toLowerCase_char s"

text \<open>\<^verbatim>\<open>s.includes(needle)\<close>: the needle starts at some position of \<open>s\<close>.\<close>

fun includes_String :: "string \<Rightarrow> string \<Rightarrow> bool" where
  "includes_String [] needle = (needle = [])"
| "includes_String (c # cs) needle = (prefix needle (c # cs) \<or> includes_String cs needle)"

text \<open>A number in a template literal: the decimal digits of an integer, with its sign.\<close>

fun digits :: "nat \<Rightarrow> string" where
  "digits n = (if n < 10 then [''0123456789'' ! n] else digits (n div 10) @ [''0123456789'' ! (n mod 10)])"

declare digits.simps [simp del]

definition number_toString :: "int \<Rightarrow> string" where
  "number_toString i = (if i < 0 then ''-'' @ digits (nat (- i)) else digits (nat i))"

section \<open>Prompt assembly (\<^verbatim>\<open>src/nodes/conversation.ts\<close>)\<close>

definition DEFAULT_SYSTEM_PROMPT :: string where
  "DEFAULT_SYSTEM_PROMPT = ''You are a helpful assistant.''"

definition getMemoryNamespace :: "string \<Rightarrow> string list" where
  "getMemoryNamespace cid = [''memories'', cid]"

text \<open>
  \<^verbatim>\<open>systemPrompt ?? process.env.SYSTEM_PROMPT ?? DEFAULT_SYSTEM_PROMPT\<close>: only
  \<^verbatim>\<open>undefined\<close> falls through, an empty string does not.
\<close>

definition getSystemPrompt :: "ProcessEnv \<Rightarrow> string option \<Rightarrow> string" where
  "getSystemPrompt e sp =
     (case sp of
        Some s \<Rightarrow> s
      | None \<Rightarrow> (case SYSTEM_PROMPT e of Some s \<Rightarrow> s | None \<Rightarrow> DEFAULT_SYSTEM_PROMPT))"

text \<open>\<^verbatim>\<open>x ? `Label: ${x}` : undefined\<close>\<close>

definition labelled :: "string \<Rightarrow> string option \<Rightarrow> string option" where
  "labelled label x = (if truthy x then Some (label @ interpolate x) else None)"

definition userDetails :: "Patient \<Rightarrow> string" where
  "userDetails u =
     join ''\<newline>'' (filter_Boolean
       [Some (''User Name: '' @ interpolate (firstName u) @ '' '' @ interpolate (lastName u)),
        labelled ''Email: '' (email u),
        labelled ''DOB: '' (dob u),
        labelled ''Gender: '' (gender u)])"

definition createSystemMessage_prompt ::
  "ProcessEnv \<Rightarrow> string option \<Rightarrow> Patient option \<Rightarrow> string option \<Rightarrow> string" where
  "createSystemMessage_prompt e memories u sp =
     (let prompt = getSystemPrompt e sp;
          prompt = (case u of
                      None \<Rightarrow> prompt
                    | Some p \<Rightarrow> prompt
                        @ ''\<newline>\<newline>Here is some information about the user you are talking to:\<newline>''
                        @ userDetails p);
          prompt = (if truthy memories
                    then prompt @ ''\<newline>\<newline>What you remember about this user:\<newline>''
                           @ interpolate memories
                    else prompt)
      in prompt)"

definition createSystemMessage ::
  "ProcessEnv \<Rightarrow> string option \<Rightarrow> Patient option \<Rightarrow> string option \<Rightarrow> BaseMessage" where
  "createSystemMessage e memories u sp = SystemMessage (createSystemMessage_prompt e memories u sp)"

section \<open>The LLM service (\<^verbatim>\<open>src/services/llm/openrouter.service.ts\<close>)\<close>

definition DEFAULT_MODEL :: string where
  "DEFAULT_MODEL = ''google/gemini-2.5-flash-lite''"

definition DEFAULT_BASE_URL :: string where
  "DEFAULT_BASE_URL = ''https://openrouter.ai/api/v1''"

text \<open>
  The constructor. \<^verbatim>\<open>if (!apiKey) throw new Error(...)\<close>: an unset variable and an
  empty one both throw.
\<close>

definition new_OpenRouterLLMService :: "ProcessEnv \<Rightarrow> error + OpenRouterLLMService" where
  "new_OpenRouterLLMService e =
     (case OPENROUTER_API_KEY e of
        None \<Rightarrow> Inl (Error ''OPENROUTER_API_KEY environment variable is required.'')
      | Some k \<Rightarrow>
          (if k = []
           then Inl (Error ''OPENROUTER_API_KEY environment variable is required.'')
           else Inr \<lparr>apiKey = k,
                     baseURL = (case OPENROUTER_BASE_URL e of
                                  Some b \<Rightarrow> b
                                | None \<Rightarrow> DEFAULT_BASE_URL)\<rparr>))"

text \<open>\<^verbatim>\<open>getModel(modelName?)\<close>: builds the chat model, no call to the provider.\<close>

definition getModel :: "ProcessEnv \<Rightarrow> OpenRouterLLMService \<Rightarrow> string option \<Rightarrow> ChatOpenAI" where
  "getModel e service modelName =
     \<lparr>model_Chat = (case modelName of
                      Some m \<Rightarrow> m
                    | None \<Rightarrow> (case MODEL_NAME e of Some m \<Rightarrow> m | None \<Rightarrow> DEFAULT_MODEL)),
      apiKey_Chat = apiKey service,
      baseURL_Chat = baseURL service\<rparr>"

section \<open>The profile services (\<^verbatim>\<open>src/services/semble\<close>)\<close>

definition MockSembleService :: ISembleService where
  "MockSembleService userId =
     Inr (Some \<lparr>id_Patient = userId,
                firstName = Some ''John'',
                lastName = Some ''Doe'',
                email = Some ''john.doe@example.com'',
                dob = Some ''1985-05-15'',
                gender = Some ''Male'',
                address = Some \<lparr>line1 = Some ''123 Baker Street'', city = Some ''London'',
                                 postcode = Some ''NW1 6XE''\<rparr>,
                phones = Some [\<lparr>type_Phone = ''mobile'', number = ''+447700900123''\<rparr>]\<rparr>)"

definition RealSembleService :: ISembleService where
  "RealSembleService userId = Inl (Error ''Real Semble integration not implemented yet'')"

section \<open>The provider registry (\<^verbatim>\<open>src/providers\<close>)\<close>

definition createLLMService :: "ProcessEnv \<Rightarrow> error + OpenRouterLLMService" where
  "createLLMService e = new_OpenRouterLLMService e"

definition createSembleService :: "ProcessEnv \<Rightarrow> ISembleService" where
  "createSembleService e =
     (let useMock = (USE_MOCK_SEMBLE e \<noteq> Some ''false'')
      in if useMock then MockSembleService else RealSembleService)"

text \<open>
  The getters build the service on the first call and keep it in the registry. A
  constructor that throws leaves the variable \<^verbatim>\<open>null\<close>.
\<close>

definition getSembleService :: "ProcessEnv \<Rightarrow> Providers \<Rightarrow> ISembleService \<times> Providers" where
  "getSembleService e reg =
     (case sembleService reg of
        Some s \<Rightarrow> (s, reg)
      | None \<Rightarrow> (let s = createSembleService e in (s, reg\<lparr>sembleService := Some s\<rparr>)))"

definition getLLMService ::
  "ProcessEnv \<Rightarrow> Providers \<Rightarrow> (error + OpenRouterLLMService) \<times> Providers" where
  "getLLMService e reg =
     (case llmService reg of
        Some s \<Rightarrow> (Inr s, reg)
      | None \<Rightarrow> (case createLLMService e of
                   Inl err \<Rightarrow> (Inl err, reg)
                 | Inr s \<Rightarrow> (Inr s, reg\<lparr>llmService := Some s\<rparr>)))"

section \<open>The profile-fetch node (\<^verbatim>\<open>src/nodes/fetch-user.ts\<close>)\<close>

text \<open>
  \<^verbatim>\<open>if (!clientId) return {}\<close>: a missing client id and an empty one both skip the
  lookup. A lookup that throws, and one that finds nobody, give the empty update.
\<close>

definition fetchUserNode ::
  "Runtime \<Rightarrow> Providers \<Rightarrow> AgentState \<Rightarrow> LangGraphRunnableConfig \<Rightarrow> AgentStateUpdate Outcome" where
  "fetchUserNode rt reg state config =
     (case getSembleService (env rt) reg of
        (service, reg') \<Rightarrow>
          (let cid = (case configurable config of None \<Rightarrow> None | Some c \<Rightarrow> clientId c)
           in case cid of
                None \<Rightarrow> \<lparr>result = Inr empty_Update, calls = [], providers = reg'\<rparr>
              | Some c \<Rightarrow>
                  (if c = []
                   then \<lparr>result = Inr empty_Update, calls = [], providers = reg'\<rparr>
                   else (case service c of
                           Inl e \<Rightarrow>
                             \<lparr>result = Inr empty_Update, calls = [GetUser c], providers = reg'\<rparr>
                         | Inr None \<Rightarrow>
                             \<lparr>result = Inr empty_Update, calls = [GetUser c], providers = reg'\<rparr>
                         | Inr (Some u) \<Rightarrow>
                             \<lparr>result = Inr \<lparr>messages_Update = None, user_Update = Some (Some u)\<rparr>,
                              calls = [GetUser c], providers = reg'\<rparr>))))"

section \<open>The conversation node (\<^verbatim>\<open>src/nodes/conversation.ts\<close>)\<close>

text \<open>\<^verbatim>\<open>(config.configurable?.clientId as string) ?? "default"\<close>\<close>

definition resolve_clientId :: "LangGraphRunnableConfig \<Rightarrow> string" where
  "resolve_clientId config =
     (case configurable config of
        None \<Rightarrow> ''default''
      | Some c \<Rightarrow> (case clientId c of None \<Rightarrow> ''default'' | Some s \<Rightarrow> s))"

text \<open>
  Lines 107 to 132 of \<^verbatim>\<open>conversationNode\<close>, the retrieval of the long-term memories:
  the value of \<^verbatim>\<open>memoriesText\<close> after the block, and the store calls made.
\<close>

definition retrieveMemories :: "BaseStore option \<Rightarrow> string \<Rightarrow> string \<times> Call list" where
  "retrieveMemories st cid =
     (case st of
        None \<Rightarrow> ([], [])
      | Some s \<Rightarrow>
          (let namespace = getMemoryNamespace cid
           in case search s namespace 10 of
                Inl e \<Rightarrow> ([], [Search namespace 10])
              | Inr None \<Rightarrow> ([], [Search namespace 10])
              | Inr (Some memories) \<Rightarrow>
                  (if length memories > 0
                   then (let memoriesText =
                               join ''\<newline>- '' (filter_Boolean
                                 (map (\<lambda>m. case value_Item m of
                                              None \<Rightarrow> None
                                            | Some item \<Rightarrow> text_Stored item) memories))
                         in (if memoriesText \<noteq> [] then ''- '' @ memoriesText else memoriesText,
                             [Search namespace 10]))
                   else ([], [Search namespace 10]))))"

text \<open>\<^verbatim>\<open>xs.at(-1)\<close>: the last element, \<^verbatim>\<open>undefined\<close> on the empty array.\<close>

definition at_last :: "'a list \<Rightarrow> 'a option" where
  "at_last xs = (if xs = [] then None else Some (last xs))"

text \<open>\<^verbatim>\<open>typeof lastMessage?.content === "string" ? lastMessage.content : ""\<close>\<close>

definition content_string :: "BaseMessage option \<Rightarrow> string" where
  "content_string lastMessage =
     (case lastMessage of
        None \<Rightarrow> []
      | Some m \<Rightarrow> (case content m of Str s \<Rightarrow> s | Blocks bs \<Rightarrow> []))"

text \<open>
  Lines 141 to 161 of \<^verbatim>\<open>conversationNode\<close>, the write of a new memory: the store
  calls made. What \<^verbatim>\<open>put\<close> answers is caught and dropped.
\<close>

definition storeMemory :: "Runtime \<Rightarrow> BaseStore option \<Rightarrow> string \<Rightarrow> BaseMessage list \<Rightarrow> Call list" where
  "storeMemory rt st cid msgs =
     (case st of
        None \<Rightarrow> []
      | Some s \<Rightarrow>
          (let lastMessage = at_last msgs;
               content = content_string lastMessage
           in if includes_String (toLowerCase content) ''remember''
              then (let namespace = getMemoryNamespace cid;
                        memoryId = ''mem_'' @ number_toString (Date_now rt);
                        memoryItem = \<lparr>text_Item = content, createdAt = toISOString rt\<rparr>
                    in case put s namespace memoryId memoryItem of
                         Inl e \<Rightarrow> [Put namespace memoryId memoryItem]
                       | Inr u \<Rightarrow> [Put namespace memoryId memoryItem])
              else []))"

definition conversationNode ::
  "Runtime \<Rightarrow> Providers \<Rightarrow> AgentState \<Rightarrow> LangGraphRunnableConfig \<Rightarrow> AgentStateUpdate Outcome" where
  "conversationNode rt reg state config =
     (let modelName = (case configurable config of None \<Rightarrow> None | Some c \<Rightarrow> model c)
      in case getLLMService (env rt) reg of
           (Inl e, reg') \<Rightarrow> \<lparr>result = Inl e, calls = [], providers = reg'\<rparr>
         | (Inr service, reg') \<Rightarrow>
             (let llm = getModel (env rt) service modelName;
                  cid = resolve_clientId config;
                  (memoriesText, searched) = retrieveMemories (store config) cid;
                  sp = (case configurable config of None \<Rightarrow> None | Some c \<Rightarrow> systemPrompt c);
                  systemMessage = createSystemMessage (env rt) (Some memoriesText) (user state) sp;
                  input = systemMessage # messages state
              in case invoke rt llm input of
                   Inl e \<Rightarrow>
                     \<lparr>result = Inl e, calls = searched @ [Invoke llm input], providers = reg'\<rparr>
                 | Inr response \<Rightarrow>
                     \<lparr>result = Inr \<lparr>messages_Update = Some [response], user_Update = None\<rparr>,
                      calls = searched @ [Invoke llm input]
                                @ storeMemory rt (store config) cid (messages state),
                      providers = reg'\<rparr>))"

section \<open>Merging an update into the state (\<^verbatim>\<open>src/state.ts\<close>)\<close>

text \<open>
  Modelled from the spec: \<^verbatim>\<open>messagesStateReducer\<close>, the reducer of the \<^verbatim>\<open>messages\<close>
  channel, is imported from the graph library and its code is not part of the sources.
  The data model describes the channel as an append-merge: new messages are concatenated
  to the existing ones, never replacing them.
\<close>

definition messagesStateReducer :: "BaseMessage list \<Rightarrow> BaseMessage list \<Rightarrow> BaseMessage list" where
  "messagesStateReducer left right = left @ right"

text \<open>The reducer of the \<^verbatim>\<open>user\<close> channel: \<^verbatim>\<open>(x, y) => y ?? x\<close>.\<close>

definition user_reducer :: "Patient option \<Rightarrow> Patient option \<Rightarrow> Patient option" where
  "user_reducer x y = (case y of Some p \<Rightarrow> Some p | None \<Rightarrow> x)"

text \<open>
  Modelled from the spec: the state container that merges a returned update into the state
  is the graph library and its code is not part of the sources. It merges the update by
  the reducers of the channels: for each key present in the update, the reducer of that
  channel is applied to the old value and the update; a channel without a key keeps its
  value.
\<close>

definition applyUpdate :: "AgentState \<Rightarrow> AgentStateUpdate \<Rightarrow> AgentState" where
  "applyUpdate st upd =
     \<lparr>messages = (case messages_Update upd of
                    None \<Rightarrow> messages st
                  | Some ms \<Rightarrow> messagesStateReducer (messages st) ms),
      user = (case user_Update upd of
                None \<Rightarrow> user st
              | Some y \<Rightarrow> user_reducer (user st) y)\<rparr>"

section \<open>Observing a run, and the inputs of the worked examples\<close>

text \<open>The \<^verbatim>\<open>put\<close> calls among the calls of a run.\<close>

definition puts :: "Call list \<Rightarrow> Call list" where
  "puts cs = filter (\<lambda>c. case c of Put namespace key v \<Rightarrow> True | _ \<Rightarrow> False) cs"

definition ex_env :: ProcessEnv where
  "ex_env = \<lparr>OPENROUTER_API_KEY = Some ''sk-test'', OPENROUTER_BASE_URL = None,
             MODEL_NAME = None, SYSTEM_PROMPT = None, USE_MOCK_SEMBLE = None\<rparr>"

definition ex_reply :: BaseMessage where
  "ex_reply = \<lparr>role = Assistant, content = Str ''Noted.''\<rparr>"

definition ex_Runtime :: Runtime where
  "ex_Runtime = \<lparr>env = ex_env, invoke = (\<lambda>llm input. Inr ex_reply),
                 Date_now = 1762000000123, toISOString = ''2025-11-01T12:26:40.123Z''\<rparr>"

definition ex_items :: "SearchItem list" where
  "ex_items = [\<lparr>value_Item = Some \<lparr>text_Stored = Some ''a''\<rparr>\<rparr>,
               \<lparr>value_Item = Some \<lparr>text_Stored = Some []\<rparr>\<rparr>,
               \<lparr>value_Item = Some \<lparr>text_Stored = Some ''b''\<rparr>\<rparr>]"

definition ex_store :: BaseStore where
  "ex_store = \<lparr>search = (\<lambda>namespace limit. Inr (Some ex_items)),
               put = (\<lambda>namespace key v. Inr ())\<rparr>"

definition ex_config :: LangGraphRunnableConfig where
  "ex_config = \<lparr>configurable = Some \<lparr>model = None, clientId = Some ''client-1'',
                                     systemPrompt = None\<rparr>,
                store = Some ex_store\<rparr>"

definition ex_state :: AgentState where
  "ex_state = \<lparr>messages = [\<lparr>role = User, content = Str ''Please remember I like tea''\<rparr>],
               user = None\<rparr>"

definition ex_jane :: Patient where
  "ex_jane = \<lparr>id_Patient = ''p-1'', firstName = Some ''Jane'', lastName = Some ''Doe'',
              email = None, dob = None, gender = None, address = None, phones = None\<rparr>"

definition ex_Runtime_llm_down :: Runtime where
  "ex_Runtime_llm_down =
     ex_Runtime\<lparr>invoke := (\<lambda>llm input. Inl (Error ''provider unavailable''))\<rparr>"

definition ex_store_down :: BaseStore where
  "ex_store_down = \<lparr>search = (\<lambda>namespace limit. Inl (Error ''store unavailable'')),
                    put = (\<lambda>namespace key v. Inl (Error ''store unavailable''))\<rparr>"

definition ex_Runtime_real_semble :: Runtime where
  "ex_Runtime_real_semble = ex_Runtime\<lparr>env := ex_env\<lparr>USE_MOCK_SEMBLE := Some ''false''\<rparr>\<rparr>"

definition ex_state_assistant_last :: AgentState where
  "ex_state_assistant_last =
     \<lparr>messages = [\<lparr>role = User, content = Str ''hi''\<rparr>,
                  \<lparr>role = Assistant, content = Str ''I will remember that''\<rparr>],
      user = None\<rparr>"

definition ex_config_no_clientId :: LangGraphRunnableConfig where
  "ex_config_no_clientId = \<lparr>configurable = None, store = Some ex_store\<rparr>"

definition ex_Runtime_no_key :: Runtime where
  "ex_Runtime_no_key = ex_Runtime\<lparr>env := ex_env\<lparr>OPENROUTER_API_KEY := None\<rparr>\<rparr>"

definition ex_state_upper :: AgentState where
  "ex_state_upper = \<lparr>messages = [\<lparr>role = User, content = Str ''REMEMBER this''\<rparr>], user = None\<rparr>"

definition ex_state_weather :: AgentState where
  "ex_state_weather =
     \<lparr>messages = [\<lparr>role = User, content = Str ''What's the weather?''\<rparr>], user = None\<rparr>"

definition ex_state_reply_last :: AgentState where
  "ex_state_reply_last =
     \<lparr>messages = [\<lparr>role = User, content = Str ''Please remember I like tea''\<rparr>,
                  \<lparr>role = Assistant, content = Str ''Noted.''\<rparr>],
      user = None\<rparr>"

section \<open>The specification's wording of the assembled texts\<close>

text \<open>
  The memory text as the specification words it: take \<^verbatim>\<open>.value.text\<close> of every item,
  drop the absent and the empty ones, join the survivors with a newline and "- ", and
  put "- " in front when there is a survivor.
\<close>

definition spec_memory_text :: "SearchItem list \<Rightarrow> string" where
  "spec_memory_text items =
     (let survivors = filter (\<lambda>t. t \<noteq> [])
                        (List.map_filter (\<lambda>i. Option.bind (value_Item i) text_Stored) items)
      in if survivors = [] then [] else ''- '' @ join ''\<newline>- '' survivors)"

text \<open>
  A line of the profile block as the specification words it: a field that is there
  contributes a newline, its label and its value; a field that is not contributes
  nothing. The source tests the field for truthiness, so the empty string counts as not
  there.
\<close>

definition present_line :: "string \<Rightarrow> string option \<Rightarrow> string" where
  "present_line label x =
     (case x of None \<Rightarrow> [] | Some v \<Rightarrow> if v = [] then [] else ''\<newline>'' @ label @ v)"

text \<open>
  The last user-authored message of a list, as the specification names the message that
  the write policy examines.
\<close>

definition last_user_authored :: "BaseMessage list \<Rightarrow> BaseMessage option" where
  "last_user_authored msgs = at_last (filter (\<lambda>m. role m = User) msgs)"

text \<open>
  The word "remember" up to the case of its letters, as the specification words the
  trigger: eight characters, each of them the letter of "remember" at its place, small
  or capital.
\<close>

definition spec_remember_ignoring_case :: "string \<Rightarrow> bool" where
  "spec_remember_ignoring_case w =
     list_all2 (\<lambda>c (lower, upper). c = lower \<or> c = upper) w (zip ''remember'' ''REMEMBER'')"

section \<open>Facts about the primitives\<close>

lemma includes_String_sublist: "includes_String s n \<longleftrightarrow> sublist n s"
  by (induction s) (auto simp: sublist_Cons_right)

lemma sublist_map_iff: "sublist n (map f c) \<longleftrightarrow> (\<exists>w. sublist w c \<and> map f w = n)"
proof
  assume "sublist n (map f c)"
  then obtain ps ss where "map f c = ps @ n @ ss"
    by (auto simp: sublist_def)
  then obtain a b where ab: "c = a @ b" "n @ ss = map f b"
    by (metis map_eq_append_conv)
  then obtain w d where wd: "b = w @ d" "map f w = n"
    by (metis append_eq_map_conv)
  from ab wd have "sublist w c"
    by (auto simp: sublist_def)
  with wd show "\<exists>w. sublist w c \<and> map f w = n"
    by blast
next
  assume "\<exists>w. sublist w c \<and> map f w = n"
  then obtain w ps ss where "c = ps @ w @ ss" "map f w = n"
    by (auto simp: sublist_def)
  then have "map f c = map f ps @ n @ map f ss"
    by simp
  then show "sublist n (map f c)"
    unfolding sublist_def by blast
qed

lemma toLowerCase_Nil: "toLowerCase [] = []"
  by (simp add: toLowerCase_def)

text \<open>
  The test of the source, \<^verbatim>\<open>content.toLowerCase().includes(n)\<close>, holds exactly when
  some stretch of the content is \<open>n\<close> up to the case of its letters.
\<close>

lemma includes_toLowerCase:
  "includes_String (toLowerCase c) n \<longleftrightarrow> (\<exists>w. sublist w c \<and> toLowerCase w = n)"
  by (simp add: includes_String_sublist toLowerCase_def sublist_map_iff)

lemma join_Cons: "join sep (x # xs) = x @ concat (map (\<lambda>y. sep @ y) xs)"
  by (induction sep xs arbitrary: x rule: join.induct) simp_all

lemma join_nonempty: "xs \<noteq> [] \<Longrightarrow> \<forall>x\<in>set xs. x \<noteq> [] \<Longrightarrow> join sep xs \<noteq> []"
  by (induction sep xs rule: join.induct) auto

section \<open>Facts about the prompt assembly\<close>

lemma filter_Boolean_labelled:
  "concat (map ((#) CHR ''\<newline>'') (filter_Boolean (labelled label x # rest)))
     = present_line label x @ concat (map ((#) CHR ''\<newline>'') (filter_Boolean rest))"
  by (cases x) (simp_all add: labelled_def truthy_def present_line_def interpolate_def)

lemma userDetails_lines:
  "userDetails u =
     ''User Name: '' @ interpolate (firstName u) @ '' '' @ interpolate (lastName u)
     @ present_line ''Email: '' (email u)
     @ present_line ''DOB: '' (dob u)
     @ present_line ''Gender: '' (gender u)"
  by (simp add: userDetails_def join_Cons filter_Boolean_labelled)

section \<open>Facts about the memory retrieval\<close>

lemma filter_Boolean_texts:
  "filter_Boolean
     (map (\<lambda>m. case value_Item m of None \<Rightarrow> None | Some item \<Rightarrow> text_Stored item) items)
   = filter (\<lambda>t. t \<noteq> [])
       (List.map_filter (\<lambda>i. Option.bind (value_Item i) text_Stored) items)"
  by (induction items) (auto simp: List.map_filter_simps split: option.splits)

lemma retrieveMemories_text:
  assumes "search s [''memories'', cid] 10 = Inr (Some items)"
  shows "fst (retrieveMemories (Some s) cid) = spec_memory_text items"
proof -
  let ?survivors = "filter (\<lambda>t. t \<noteq> [])
                      (List.map_filter (\<lambda>i. Option.bind (value_Item i) text_Stored) items)"
  have "?survivors \<noteq> [] \<Longrightarrow> join ''\<newline>- '' ?survivors \<noteq> []"
    by (rule join_nonempty) auto
  moreover have "items = [] \<Longrightarrow> ?survivors = []"
    by (simp add: List.map_filter_simps)
  ultimately show ?thesis
    using assms
    by (auto simp: retrieveMemories_def getMemoryNamespace_def spec_memory_text_def Let_def
          filter_Boolean_texts)
qed

lemma retrieveMemories_fallback:
  "fst (retrieveMemories None cid) = []"
  "search s [''memories'', cid] 10 = Inl e \<Longrightarrow> fst (retrieveMemories (Some s) cid) = []"
  "search s [''memories'', cid] 10 = Inr None \<Longrightarrow> fst (retrieveMemories (Some s) cid) = []"
  by (simp_all add: retrieveMemories_def getMemoryNamespace_def)

lemma retrieveMemories_spec:
  "fst (retrieveMemories st cid) =
     (case st of
        None \<Rightarrow> []
      | Some s \<Rightarrow> (case search s [''memories'', cid] 10 of
                     Inl e \<Rightarrow> []
                   | Inr None \<Rightarrow> []
                   | Inr (Some items) \<Rightarrow> spec_memory_text items))"
  by (simp add: retrieveMemories_text retrieveMemories_fallback split: option.splits sum.splits)

lemma puts_retrieveMemories: "puts (snd (retrieveMemories st cid)) = []"
  by (simp add: retrieveMemories_def puts_def Let_def split: option.splits sum.splits)

section \<open>Facts about the memory write\<close>

lemma puts_storeMemory: "puts (storeMemory rt st cid msgs) = storeMemory rt st cid msgs"
  by (simp add: storeMemory_def puts_def Let_def split: option.splits sum.splits)

lemma storeMemory_spec:
  "storeMemory rt st cid msgs =
     (case at_last msgs of
        None \<Rightarrow> []
      | Some m \<Rightarrow>
          (case content m of
             Blocks bs \<Rightarrow> []
           | Str c \<Rightarrow>
               if st \<noteq> None \<and> (\<exists>w. sublist w c \<and> toLowerCase w = ''remember'')
               then [Put [''memories'', cid] (''mem_'' @ number_toString (Date_now rt))
                         \<lparr>text_Item = c, createdAt = toISOString rt\<rparr>]
               else []))"
  by (auto simp: storeMemory_def Let_def includes_toLowerCase content_string_def
        toLowerCase_Nil getMemoryNamespace_def
        split: option.splits sum.splits MessageContent.splits)

section \<open>The shape of a run of the conversation node\<close>

lemma conversationNode_Inr:
  assumes "result (conversationNode rt reg state config) = Inr upd"
  shows "\<exists>service reg' response llm input.
           getLLMService (env rt) reg = (Inr service, reg')
         \<and> llm = getModel (env rt) service
                   (case configurable config of None \<Rightarrow> None | Some c \<Rightarrow> model c)
         \<and> input = createSystemMessage (env rt)
                      (Some (fst (retrieveMemories (store config) (resolve_clientId config))))
                      (user state)
                      (case configurable config of None \<Rightarrow> None | Some c \<Rightarrow> systemPrompt c)
                    # messages state
         \<and> invoke rt llm input = Inr response
         \<and> upd = \<lparr>messages_Update = Some [response], user_Update = None\<rparr>
         \<and> calls (conversationNode rt reg state config) =
             snd (retrieveMemories (store config) (resolve_clientId config))
             @ [Invoke llm input]
             @ storeMemory rt (store config) (resolve_clientId config) (messages state)
         \<and> providers (conversationNode rt reg state config) = reg'"
  using assms
  by (auto simp: conversationNode_def Let_def split: prod.splits sum.splits)

lemma puts_conversationNode:
  assumes "result (conversationNode rt reg state config) = Inr upd"
  shows "puts (calls (conversationNode rt reg state config)) =
           storeMemory rt (store config) (resolve_clientId config) (messages state)"
  using conversationNode_Inr [OF assms]
  by (auto simp: puts_def puts_retrieveMemories [unfolded puts_def]
        puts_storeMemory [unfolded puts_def])

lemma conversationNode_result:
  assumes "getLLMService (env rt) reg = (Inr service, reg')"
  shows "result (conversationNode rt reg state config) =
           (case invoke rt
                   (getModel (env rt) service
                      (case configurable config of None \<Rightarrow> None | Some c \<Rightarrow> model c))
                   (createSystemMessage (env rt)
                      (Some (fst (retrieveMemories (store config) (resolve_clientId config))))
                      (user state)
                      (case configurable config of None \<Rightarrow> None | Some c \<Rightarrow> systemPrompt c)
                    # messages state) of
              Inl e \<Rightarrow> Inl e
            | Inr response \<Rightarrow> Inr \<lparr>messages_Update = Some [response], user_Update = None\<rparr>)"
  using assms
  by (simp add: conversationNode_def Let_def split: prod.splits sum.splits)

lemma conversationNode_calls:
  assumes "getLLMService (env rt) reg = (Inr service, reg')"
  shows "\<exists>rest. calls (conversationNode rt reg state config) =
           snd (retrieveMemories (store config) (resolve_clientId config))
           @ Invoke (getModel (env rt) service
                      (case configurable config of None \<Rightarrow> None | Some c \<Rightarrow> model c))
                   (createSystemMessage (env rt)
                      (Some (fst (retrieveMemories (store config) (resolve_clientId config))))
                      (user state)
                      (case configurable config of None \<Rightarrow> None | Some c \<Rightarrow> systemPrompt c)
                    # messages state)
           # rest"
  using assms
  by (simp add: conversationNode_def Let_def split: prod.splits sum.splits)

lemma conversationNode_no_service:
  assumes "getLLMService (env rt) reg = (Inl e, reg')"
  shows "conversationNode rt reg state config = \<lparr>result = Inl e, calls = [], providers = reg'\<rparr>"
  using assms
  by (simp add: conversationNode_def Let_def)

section \<open>Facts about failures and about the profile fetch\<close>

lemma resolve_clientId_store: "resolve_clientId (config\<lparr>store := s\<rparr>) = resolve_clientId config"
  by (simp add: resolve_clientId_def)

lemma conversationNode_result_cong:
  assumes "fst (retrieveMemories (store c1) (resolve_clientId c1))
             = fst (retrieveMemories (store c2) (resolve_clientId c2))"
    and "configurable c1 = configurable c2"
  shows "result (conversationNode rt reg state c1) = result (conversationNode rt reg state c2)"
proof (cases "getLLMService (env rt) reg")
  case (Pair r reg')
  show ?thesis
  proof (cases r)
    case (Inl e)
    with Pair have g: "getLLMService (env rt) reg = (Inl e, reg')"
      by simp
    show ?thesis
      by (simp add: conversationNode_no_service [OF g])
  next
    case (Inr service)
    with Pair have g: "getLLMService (env rt) reg = (Inr service, reg')"
      by simp
    from assms show ?thesis
      by (simp add: conversationNode_result [OF g])
  qed
qed

lemma retrieveMemories_put:
  "retrieveMemories (Some (st\<lparr>put := p\<rparr>)) cid = retrieveMemories (Some st) cid"
  by (simp add: retrieveMemories_def)

lemma result_independent_of_put:
  "result (conversationNode rt reg state (config\<lparr>store := Some (st\<lparr>put := p\<rparr>)\<rparr>))
     = result (conversationNode rt reg state (config\<lparr>store := Some st\<rparr>))"
  by (rule conversationNode_result_cong) (simp_all add: resolve_clientId_store retrieveMemories_put)

lemma result_search_fails:
  assumes "search st [''memories'', resolve_clientId config] 10 = Inl e"
  shows "result (conversationNode rt reg state (config\<lparr>store := Some st\<rparr>))
          = result (conversationNode rt reg state (config\<lparr>store := None\<rparr>))"
  by (rule conversationNode_result_cong)
     (simp_all add: resolve_clientId_store retrieveMemories_fallback(1)
        retrieveMemories_fallback(2) [OF assms])

lemma fetchUserNode_lookup_fails:
  assumes "getSembleService (env rt) reg = (service, reg')"
    and "configurable config = Some c" and "clientId c = Some cid" and "cid \<noteq> []"
    and "service cid = Inl e"
  shows "fetchUserNode rt reg state config
           = \<lparr>result = Inr empty_Update, calls = [GetUser cid], providers = reg'\<rparr>"
  using assms by (simp add: fetchUserNode_def Let_def)

lemma fetchUserNode_no_configurable:
  assumes "getSembleService (env rt) reg = (service, reg')"
    and "configurable config = None"
  shows "fetchUserNode rt reg state config
           = \<lparr>result = Inr empty_Update, calls = [], providers = reg'\<rparr>"
  using assms by (simp add: fetchUserNode_def Let_def)

lemma fetchUserNode_no_clientId:
  assumes "getSembleService (env rt) reg = (service, reg')"
    and "configurable config = Some c"
    and "clientId c = None"
  shows "fetchUserNode rt reg state config
           = \<lparr>result = Inr empty_Update, calls = [], providers = reg'\<rparr>"
  using assms by (simp add: fetchUserNode_def Let_def)

lemma fetchUserNode_empty_clientId:
  assumes "getSembleService (env rt) reg = (service, reg')"
    and "configurable config = Some c"
    and "clientId c = Some []"
  shows "fetchUserNode rt reg state config
           = \<lparr>result = Inr empty_Update, calls = [], providers = reg'\<rparr>"
  using assms by (simp add: fetchUserNode_def Let_def)

section \<open>The worked examples\<close>

lemma ex_getLLMService:
  "getLLMService (env ex_Runtime) initial_Providers
     = (Inr \<lparr>apiKey = ''sk-test'', baseURL = DEFAULT_BASE_URL\<rparr>,
        \<lparr>sembleService = None,
         llmService = Some \<lparr>apiKey = ''sk-test'', baseURL = DEFAULT_BASE_URL\<rparr>\<rparr>)"
  by (simp add: getLLMService_def createLLMService_def new_OpenRouterLLMService_def
        initial_Providers_def ex_env_def ex_Runtime_def)

lemma ex_invoke: "invoke ex_Runtime llm input = Inr ex_reply"
  by (simp add: ex_Runtime_def)

lemma ex_run_result:
  "result (conversationNode ex_Runtime initial_Providers ex_state ex_config)
     = Inr \<lparr>messages_Update = Some [ex_reply], user_Update = None\<rparr>"
  by (simp add: conversationNode_result [OF ex_getLLMService] ex_invoke)

lemma ex_getLLMService_llm_down:
  "getLLMService (env ex_Runtime_llm_down) initial_Providers
     = (Inr \<lparr>apiKey = ''sk-test'', baseURL = DEFAULT_BASE_URL\<rparr>,
        \<lparr>sembleService = None,
         llmService = Some \<lparr>apiKey = ''sk-test'', baseURL = DEFAULT_BASE_URL\<rparr>\<rparr>)"
  using ex_getLLMService by (simp add: ex_Runtime_llm_down_def)

lemma ex_invoke_llm_down: "invoke ex_Runtime_llm_down llm input = Inl (Error ''provider unavailable'')"
  by (simp add: ex_Runtime_llm_down_def)

lemma ex_getSembleService_real:
  "getSembleService (env ex_Runtime_real_semble) initial_Providers
     = (RealSembleService, \<lparr>sembleService = Some RealSembleService, llmService = None\<rparr>)"
  by (simp add: getSembleService_def createSembleService_def initial_Providers_def
        ex_Runtime_real_semble_def ex_env_def Let_def)

section \<open>Further facts about the nodes and the examples\<close>

lemma applyUpdate_conversation:
  "applyUpdate state \<lparr>messages_Update = Some [response], user_Update = None\<rparr>
     = \<lparr>messages = messages state @ [response], user = user state\<rparr>"
  by (simp add: applyUpdate_def messagesStateReducer_def)

lemma storeMemory_only_puts:
  assumes "c \<in> set (storeMemory rt st cid msgs)"
  shows "\<exists>key v. c = Put [''memories'', cid] key v"
proof (cases "at_last msgs")
  case None
  with assms show ?thesis
    by (simp add: storeMemory_spec)
next
  case (Some m)
  show ?thesis
  proof (cases "content m")
    case (Str c)
    with Some assms show ?thesis
      by (simp add: storeMemory_spec split: if_splits)
  next
    case (Blocks bs)
    with Some assms show ?thesis
      by (simp add: storeMemory_spec)
  qed
qed

lemma retrieveMemories_only_searches:
  assumes "c \<in> set (snd (retrieveMemories st cid))"
  shows "c = Search [''memories'', cid] 10"
  using assms
  by (simp add: retrieveMemories_def getMemoryNamespace_def Let_def
        split: option.splits sum.splits if_splits)

lemma conversationNode_calls_eq:
  assumes "getLLMService (env rt) reg = (Inr service, reg')"
  shows "calls (conversationNode rt reg state config)
           = snd (retrieveMemories (store config) (resolve_clientId config))
             @ Invoke (getModel (env rt) service
                        (case configurable config of None \<Rightarrow> None | Some c \<Rightarrow> model c))
                      (createSystemMessage (env rt)
                        (Some (fst (retrieveMemories (store config) (resolve_clientId config))))
                        (user state)
                        (case configurable config of None \<Rightarrow> None | Some c \<Rightarrow> systemPrompt c)
                       # messages state)
             # (case invoke rt
                       (getModel (env rt) service
                          (case configurable config of None \<Rightarrow> None | Some c \<Rightarrow> model c))
                       (createSystemMessage (env rt)
                          (Some (fst (retrieveMemories (store config) (resolve_clientId config))))
                          (user state)
                          (case configurable config of None \<Rightarrow> None | Some c \<Rightarrow> systemPrompt c)
                        # messages state) of
                  Inl e \<Rightarrow> []
                | Inr response \<Rightarrow>
                    storeMemory rt (store config) (resolve_clientId config) (messages state))"
  using assms
  by (simp add: conversationNode_def Let_def split: prod.splits sum.splits)

lemma conversationNode_calls_subset:
  assumes "c \<in> set (calls (conversationNode rt reg state config))"
  shows "c \<in> set (snd (retrieveMemories (store config) (resolve_clientId config)))
       \<or> (\<exists>llm input. c = Invoke llm input)
       \<or> c \<in> set (storeMemory rt (store config) (resolve_clientId config) (messages state))"
proof (cases "getLLMService (env rt) reg")
  case (Pair r reg')
  show ?thesis
  proof (cases r)
    case (Inl e)
    with Pair have g: "getLLMService (env rt) reg = (Inl e, reg')"
      by simp
    from assms show ?thesis
      by (simp add: conversationNode_no_service [OF g])
  next
    case (Inr service)
    with Pair have g: "getLLMService (env rt) reg = (Inr service, reg')"
      by simp
    from assms show ?thesis
      unfolding conversationNode_calls_eq [OF g]
      by (simp split: sum.splits) blast+
  qed
qed

lemma resolve_clientId_default:
  assumes "configurable config = None \<or> (\<exists>c. configurable config = Some c \<and> clientId c = None)"
  shows "resolve_clientId config = ''default''"
  using assms by (auto simp: resolve_clientId_def)

lemma fetchUserNode_missing_clientId:
  assumes "configurable config = None \<or> (\<exists>c. configurable config = Some c \<and> clientId c = None)"
  shows "result (fetchUserNode rt reg state config) = Inr empty_Update
       \<and> calls (fetchUserNode rt reg state config) = []"
proof (cases "getSembleService (env rt) reg")
  case (Pair service reg')
  from assms show ?thesis
  proof
    assume "configurable config = None"
    from fetchUserNode_no_configurable [OF Pair this] show ?thesis
      by simp
  next
    assume "\<exists>c. configurable config = Some c \<and> clientId c = None"
    then obtain c where "configurable config = Some c" and "clientId c = None"
      by blast
    from fetchUserNode_no_clientId [OF Pair this] show ?thesis
      by simp
  qed
qed

lemma new_OpenRouterLLMService_Inl:
  "(new_OpenRouterLLMService e
      = Inl (Error ''OPENROUTER_API_KEY environment variable is required.''))
   = (\<not> truthy (OPENROUTER_API_KEY e))"
  by (simp add: new_OpenRouterLLMService_def truthy_def split: option.splits)

lemma getLLMService_no_key:
  assumes "\<not> truthy (OPENROUTER_API_KEY e)" and "llmService reg = None"
  shows "getLLMService e reg
           = (Inl (Error ''OPENROUTER_API_KEY environment variable is required.''), reg)"
  using assms new_OpenRouterLLMService_Inl [of e]
  by (simp add: getLLMService_def createLLMService_def)

lemma getLLMService_key:
  assumes "truthy (OPENROUTER_API_KEY e)"
  shows "\<exists>service reg'. getLLMService e reg = (Inr service, reg')"
proof (cases "llmService reg")
  case None
  with assms show ?thesis
    by (simp add: getLLMService_def createLLMService_def new_OpenRouterLLMService_def truthy_def
          split: option.splits)
next
  case (Some s)
  then show ?thesis
    by (simp add: getLLMService_def)
qed

lemma ex_digits: "number_toString 1762000000123 = ''1762000000123''"
  by (simp add: number_toString_def digits.simps)

lemma ex_assistant_last_result:
  "result (conversationNode ex_Runtime initial_Providers ex_state_assistant_last ex_config)
     = Inr \<lparr>messages_Update = Some [ex_reply], user_Update = None\<rparr>"
  by (simp add: conversationNode_result [OF ex_getLLMService] ex_invoke)

lemma ex_no_clientId_calls:
  "calls (conversationNode ex_Runtime initial_Providers ex_state ex_config_no_clientId)
     = [Search [''memories'', ''default''] 10,
        Invoke (getModel ex_env \<lparr>apiKey = ''sk-test'', baseURL = DEFAULT_BASE_URL\<rparr> None)
          [SystemMessage ''You are a helpful assistant.\<newline>\<newline>What you remember about this user:\<newline>- a\<newline>- b'',
           \<lparr>role = User, content = Str ''Please remember I like tea''\<rparr>],
        Put [''memories'', ''default''] ''mem_1762000000123''
          \<lparr>text_Item = ''Please remember I like tea'',
           createdAt = ''2025-11-01T12:26:40.123Z''\<rparr>]"
proof -
  have i: "includes_String (toLowerCase ''Please remember I like tea'') ''remember''"
    by code_simp
  have cid: "resolve_clientId ex_config_no_clientId = ''default''"
    by (simp add: resolve_clientId_def ex_config_no_clientId_def)
  have st: "store ex_config_no_clientId = Some ex_store"
    and cf: "configurable ex_config_no_clientId = None"
    by (simp_all add: ex_config_no_clientId_def)
  have r: "retrieveMemories (Some ex_store) ''default''
             = (''- a\<newline>- b'', [Search [''memories'', ''default''] 10])"
    by (simp add: retrieveMemories_def ex_store_def ex_items_def getMemoryNamespace_def Let_def)
  have s: "storeMemory ex_Runtime (Some ex_store) ''default'' (messages ex_state)
             = [Put [''memories'', ''default''] ''mem_1762000000123''
                 \<lparr>text_Item = ''Please remember I like tea'',
                  createdAt = ''2025-11-01T12:26:40.123Z''\<rparr>]"
    unfolding storeMemory_spec using i ex_digits unfolding includes_toLowerCase
    by (simp add: at_last_def ex_state_def ex_Runtime_def)
  have e: "env ex_Runtime = ex_env" and u: "user ex_state = None"
    and m: "messages ex_state = [\<lparr>role = User, content = Str ''Please remember I like tea''\<rparr>]"
    by (simp_all add: ex_Runtime_def ex_state_def)
  have p: "createSystemMessage ex_env (Some ''- a\<newline>- b'') None None
             = SystemMessage ''You are a helpful assistant.\<newline>\<newline>What you remember about this user:\<newline>- a\<newline>- b''"
    by (simp add: createSystemMessage_def createSystemMessage_prompt_def getSystemPrompt_def
          DEFAULT_SYSTEM_PROMPT_def ex_env_def truthy_def interpolate_def Let_def)
  show ?thesis
    unfolding conversationNode_calls_eq [OF ex_getLLMService] cid st cf r
    by (simp add: ex_invoke s e u p) (simp add: m)
qed

lemma ex_no_key: "\<not> truthy (OPENROUTER_API_KEY (env ex_Runtime_no_key))"
  by (simp add: ex_Runtime_no_key_def truthy_def)

lemma ex_key: "truthy (OPENROUTER_API_KEY (env ex_Runtime))"
  by (simp add: ex_Runtime_def ex_env_def truthy_def)

section \<open>Facts about the trigger word and further examples\<close>

lemma toLowerCase_char_r: "toLowerCase_char c = CHR ''r'' \<longleftrightarrow> c = CHR ''r'' \<or> c = CHR ''R''"
  by (auto simp: toLowerCase_char_def split: if_splits)

lemma toLowerCase_char_e: "toLowerCase_char c = CHR ''e'' \<longleftrightarrow> c = CHR ''e'' \<or> c = CHR ''E''"
  by (auto simp: toLowerCase_char_def split: if_splits)

lemma toLowerCase_char_m: "toLowerCase_char c = CHR ''m'' \<longleftrightarrow> c = CHR ''m'' \<or> c = CHR ''M''"
  by (auto simp: toLowerCase_char_def split: if_splits)

lemma toLowerCase_char_b: "toLowerCase_char c = CHR ''b'' \<longleftrightarrow> c = CHR ''b'' \<or> c = CHR ''B''"
  by (auto simp: toLowerCase_char_def split: if_splits)

lemma map_eq_list_all2: "map f xs = ys \<longleftrightarrow> list_all2 (\<lambda>x y. f x = y) xs ys"
  by (induction xs arbitrary: ys) (auto simp: list_all2_Cons1)

lemma toLowerCase_remember:
  "toLowerCase w = ''remember'' \<longleftrightarrow> spec_remember_ignoring_case w"
proof -
  have "toLowerCase w = ''remember''
          \<longleftrightarrow> list_all2 (\<lambda>c l. toLowerCase_char c = l) w ''remember''"
    unfolding toLowerCase_def by (rule map_eq_list_all2)
  also have "\<dots> \<longleftrightarrow> spec_remember_ignoring_case w"
    by (simp add: spec_remember_ignoring_case_def list_all2_Cons2
          toLowerCase_char_r toLowerCase_char_e toLowerCase_char_m toLowerCase_char_b)
  finally show ?thesis .
qed

lemma includes_remember_ignoring_case:
  "includes_String (toLowerCase c) ''remember''
     \<longleftrightarrow> (\<exists>w. sublist w c \<and> spec_remember_ignoring_case w)"
  by (simp only: includes_toLowerCase toLowerCase_remember)

lemma ex_upper_result:
  "result (conversationNode ex_Runtime initial_Providers ex_state_upper ex_config)
     = Inr \<lparr>messages_Update = Some [ex_reply], user_Update = None\<rparr>"
  by (simp add: conversationNode_result [OF ex_getLLMService] ex_invoke)

lemma ex_weather_result:
  "result (conversationNode ex_Runtime initial_Providers ex_state_weather ex_config)
     = Inr \<lparr>messages_Update = Some [ex_reply], user_Update = None\<rparr>"
  by (simp add: conversationNode_result [OF ex_getLLMService] ex_invoke)

lemma ex_reply_last_result:
  "result (conversationNode ex_Runtime initial_Providers ex_state_reply_last ex_config)
     = Inr \<lparr>messages_Update = Some [ex_reply], user_Update = None\<rparr>"
  by (simp add: conversationNode_result [OF ex_getLLMService] ex_invoke)

section \<open>The memory write policy\<close>

text \<open>
  Claim C1. In a turn that produces its reply, the write policy makes exactly one
  \<^verbatim>\<open>put\<close>, in the namespace \<^verbatim>\<open>["memories", clientId]\<close>, under the key "mem_" followed by
  the millisecond timestamp, with the value \<^verbatim>\<open>{text, createdAt}\<close> holding the content
  verbatim and the ISO time, if and only if a store is configured and the content of the
  examined message is a plain string of which some stretch is the word "remember", each
  letter small or capital; with no store, with a content that is not a plain string, or
  without the word, it makes no \<^verbatim>\<open>put\<close>.
\<close>

theorem memory_write_policy:
  assumes "result (conversationNode rt reg state config) = Inr upd"
  shows "puts (calls (conversationNode rt reg state config)) =
           (case at_last (messages state) of
              None \<Rightarrow> []
            | Some m \<Rightarrow>
                (case content m of
                   Blocks bs \<Rightarrow> []
                 | Str c \<Rightarrow>
                     if store config \<noteq> None
                        \<and> (\<exists>w. sublist w c \<and> spec_remember_ignoring_case w)
                     then [Put [''memories'', resolve_clientId config]
                               (''mem_'' @ number_toString (Date_now rt))
                               \<lparr>text_Item = c, createdAt = toISOString rt\<rparr>]
                     else []))"
proof -
  have "puts (calls (conversationNode rt reg state config))
          = storeMemory rt (store config) (resolve_clientId config) (messages state)"
    using assms by (rule puts_conversationNode)
  also have "\<dots> =
           (case at_last (messages state) of
              None \<Rightarrow> []
            | Some m \<Rightarrow>
                (case content m of
                   Blocks bs \<Rightarrow> []
                 | Str c \<Rightarrow>
                     if store config \<noteq> None \<and> (\<exists>w. sublist w c \<and> toLowerCase w = ''remember'')
                     then [Put [''memories'', resolve_clientId config]
                               (''mem_'' @ number_toString (Date_now rt))
                               \<lparr>text_Item = c, createdAt = toISOString rt\<rparr>]
                     else []))"
    by (rule storeMemory_spec)
  finally show ?thesis
    by (simp only: toLowerCase_remember)
qed

theorem memory_write_policy_witness:
  "result (conversationNode ex_Runtime initial_Providers ex_state_upper ex_config)
     = Inr \<lparr>messages_Update = Some [ex_reply], user_Update = None\<rparr>
   \<and> puts (calls (conversationNode ex_Runtime initial_Providers ex_state_upper ex_config))
     = [Put [''memories'', ''client-1''] ''mem_1762000000123''
          \<lparr>text_Item = ''REMEMBER this'', createdAt = ''2025-11-01T12:26:40.123Z''\<rparr>]
   \<and> result (conversationNode ex_Runtime initial_Providers ex_state_weather ex_config)
     = Inr \<lparr>messages_Update = Some [ex_reply], user_Update = None\<rparr>
   \<and> puts (calls (conversationNode ex_Runtime initial_Providers ex_state_weather ex_config)) = []"
proof -
  note u = memory_write_policy [OF ex_upper_result]
  note w = memory_write_policy [OF ex_weather_result]
  have "prefix ''REMEMBER'' ''REMEMBER this''"
    by simp
  then have "sublist ''REMEMBER'' ''REMEMBER this''"
    by (rule prefix_imp_sublist)
  moreover have "spec_remember_ignoring_case ''REMEMBER''"
    by (simp add: spec_remember_ignoring_case_def)
  ultimately have yes: "\<exists>w. sublist w ''REMEMBER this'' \<and> spec_remember_ignoring_case w"
    by blast
  have "\<not> includes_String (toLowerCase ''What's the weather?'') ''remember''"
    by code_simp
  then have no: "\<not> (\<exists>w. sublist w ''What's the weather?'' \<and> spec_remember_ignoring_case w)"
    unfolding includes_remember_ignoring_case .
  have a: "puts (calls (conversationNode ex_Runtime initial_Providers ex_state_upper ex_config))
     = [Put [''memories'', ''client-1''] ''mem_1762000000123''
          \<lparr>text_Item = ''REMEMBER this'', createdAt = ''2025-11-01T12:26:40.123Z''\<rparr>]"
    unfolding u using yes ex_digits
    by (simp add: at_last_def ex_state_upper_def ex_config_def resolve_clientId_def ex_Runtime_def)
  have b: "puts (calls (conversationNode ex_Runtime initial_Providers ex_state_weather ex_config)) = []"
    unfolding w using no
    by (simp add: at_last_def ex_state_weather_def)
  from a b ex_upper_result ex_weather_result show ?thesis
    by simp
qed

section \<open>The memory retrieval\<close>

text \<open>
  Claim C2. Once the LLM service is resolved, the memory text that goes into the system
  message of the turn is: the empty string when no store is configured, when the search
  raises or returns nothing; and otherwise the specification's text of the items found
  (the \<^verbatim>\<open>.value.text\<close> of each, the empty and the absent ones dropped, the others joined
  with a newline and "- " and prefixed with "- " when there is one). The provider is
  invoked with that system message in front of the incoming messages, and whenever it
  answers, the turn completes with the answer. The items "a", "", "b" give the text
  "- a", newline, "- b".
\<close>

theorem memory_retrieval:
  assumes "getLLMService (env rt) reg = (Inr service, reg')"
  shows "(let memoriesText =
                (case store config of
                   None \<Rightarrow> []
                 | Some st \<Rightarrow>
                     (case search st [''memories'', resolve_clientId config] 10 of
                        Inl e \<Rightarrow> []
                      | Inr None \<Rightarrow> []
                      | Inr (Some items) \<Rightarrow> spec_memory_text items));
              llm = getModel (env rt) service
                      (case configurable config of None \<Rightarrow> None | Some c \<Rightarrow> model c);
              input = createSystemMessage (env rt) (Some memoriesText) (user state)
                        (case configurable config of None \<Rightarrow> None | Some c \<Rightarrow> systemPrompt c)
                      # messages state
          in fst (retrieveMemories (store config) (resolve_clientId config)) = memoriesText
           \<and> Invoke llm input \<in> set (calls (conversationNode rt reg state config))
           \<and> (\<forall>response. invoke rt llm input = Inr response \<longrightarrow>
                 result (conversationNode rt reg state config)
                   = Inr \<lparr>messages_Update = Some [response], user_Update = None\<rparr>))
       \<and> spec_memory_text [\<lparr>value_Item = Some \<lparr>text_Stored = Some ''a''\<rparr>\<rparr>,
                            \<lparr>value_Item = Some \<lparr>text_Stored = Some []\<rparr>\<rparr>,
                            \<lparr>value_Item = Some \<lparr>text_Stored = Some ''b''\<rparr>\<rparr>]
           = ''- a\<newline>- b''"
proof -
  from conversationNode_calls [OF assms, of state config]
  have "Invoke (getModel (env rt) service
                      (case configurable config of None \<Rightarrow> None | Some c \<Rightarrow> model c))
                   (createSystemMessage (env rt)
                      (Some (fst (retrieveMemories (store config) (resolve_clientId config))))
                      (user state)
                      (case configurable config of None \<Rightarrow> None | Some c \<Rightarrow> systemPrompt c)
                    # messages state)
         \<in> set (calls (conversationNode rt reg state config))"
    by auto
  moreover have "spec_memory_text [\<lparr>value_Item = Some \<lparr>text_Stored = Some ''a''\<rparr>\<rparr>,
                            \<lparr>value_Item = Some \<lparr>text_Stored = Some []\<rparr>\<rparr>,
                            \<lparr>value_Item = Some \<lparr>text_Stored = Some ''b''\<rparr>\<rparr>]
           = ''- a\<newline>- b''"
    by (simp add: spec_memory_text_def List.map_filter_simps)
  ultimately show ?thesis
    unfolding Let_def retrieveMemories_spec [symmetric]
    by (simp add: conversationNode_result [OF assms])
qed

theorem memory_retrieval_witness:
  "getLLMService (env ex_Runtime) initial_Providers
     = (Inr \<lparr>apiKey = ''sk-test'', baseURL = DEFAULT_BASE_URL\<rparr>,
        \<lparr>sembleService = None,
         llmService = Some \<lparr>apiKey = ''sk-test'', baseURL = DEFAULT_BASE_URL\<rparr>\<rparr>)
   \<and> fst (retrieveMemories (store ex_config) (resolve_clientId ex_config)) = ''- a\<newline>- b''
   \<and> result (conversationNode ex_Runtime initial_Providers ex_state ex_config)
       = Inr \<lparr>messages_Update = Some [ex_reply], user_Update = None\<rparr>"
proof -
  note g = ex_getLLMService
  have s: "spec_memory_text ex_items = ''- a\<newline>- b''"
    by (simp add: spec_memory_text_def List.map_filter_simps ex_items_def)
  note i = ex_invoke
  from memory_retrieval [OF g, of ex_config ex_state] show ?thesis
    unfolding Let_def
    by (simp add: g s i ex_config_def ex_store_def)
qed

section \<open>The system message\<close>

text \<open>
  Claim C6. The system message is the effective instruction (the per-call override,
  else the process default, else "You are a helpful assistant."); then, for a profile,
  the header "Here is some information about the user you are talking to:" after two
  newlines, and below it the lines User Name, Email, DOB and Gender in this order, each
  of the last three only when its field is there (a non-empty string), with exactly one
  newline between two lines; then, for a non-empty memory text, the header "What you
  remember about this user:" after two newlines, and below it the memory text verbatim.
  The profile of Jane Doe with no email, date of birth or gender gives the one line
  "User Name: Jane Doe".
\<close>

theorem system_message_assembly:
  "createSystemMessage e memories u sp =
     \<lparr>role = System,
      content = Str (
        (case sp of
           Some s \<Rightarrow> s
         | None \<Rightarrow> (case SYSTEM_PROMPT e of
                      Some s \<Rightarrow> s
                    | None \<Rightarrow> ''You are a helpful assistant.''))
        @ (case u of
             None \<Rightarrow> []
           | Some p \<Rightarrow>
               ''\<newline>\<newline>Here is some information about the user you are talking to:\<newline>''
               @ ''User Name: '' @ interpolate (firstName p) @ '' '' @ interpolate (lastName p)
               @ present_line ''Email: '' (email p)
               @ present_line ''DOB: '' (dob p)
               @ present_line ''Gender: '' (gender p))
        @ (case memories of
             None \<Rightarrow> []
           | Some m \<Rightarrow>
               if m = [] then []
               else ''\<newline>\<newline>What you remember about this user:\<newline>'' @ m))\<rparr>
   \<and> userDetails \<lparr>id_Patient = i, firstName = Some ''Jane'', lastName = Some ''Doe'',
                   email = None, dob = None, gender = None, address = a, phones = ph\<rparr>
       = ''User Name: Jane Doe''"
  by (simp add: createSystemMessage_def createSystemMessage_prompt_def SystemMessage_def
        getSystemPrompt_def DEFAULT_SYSTEM_PROMPT_def userDetails_lines truthy_def
        interpolate_def present_line_def Let_def split: option.splits)

text \<open>
  Claim C10. For every profile the system message has the line "User Name:", whatever
  fields the profile has: the line follows the profile header, an absent first or last
  name reads "undefined" in it, and what follows the line is nothing or starts a new
  line.
\<close>

theorem user_name_line_unconditional:
  "\<exists>rest. createSystemMessage e memories (Some p) sp =
            SystemMessage (getSystemPrompt e sp
              @ ''\<newline>\<newline>Here is some information about the user you are talking to:\<newline>''
              @ ''User Name: ''
              @ (case firstName p of None \<Rightarrow> ''undefined'' | Some f \<Rightarrow> f)
              @ '' ''
              @ (case lastName p of None \<Rightarrow> ''undefined'' | Some l \<Rightarrow> l)
              @ rest)
          \<and> (rest = [] \<or> hd rest = CHR ''\<newline>'')"
proof -
  define fields where
    "fields = present_line ''Email: '' (email p) @ present_line ''DOB: '' (dob p)
              @ present_line ''Gender: '' (gender p)"
  define tail where
    "tail = (if truthy memories
             then ''\<newline>\<newline>What you remember about this user:\<newline>'' @ interpolate memories
             else [])"
  have f: "fields = [] \<or> hd fields = CHR ''\<newline>''"
    by (auto simp: fields_def present_line_def split: option.splits)
  have t: "tail = [] \<or> hd tail = CHR ''\<newline>''"
    by (simp add: tail_def)
  from f t have "fields @ tail = [] \<or> hd (fields @ tail) = CHR ''\<newline>''"
    by (cases fields) auto
  moreover have "createSystemMessage e memories (Some p) sp =
            SystemMessage (getSystemPrompt e sp
              @ ''\<newline>\<newline>Here is some information about the user you are talking to:\<newline>''
              @ ''User Name: ''
              @ (case firstName p of None \<Rightarrow> ''undefined'' | Some f \<Rightarrow> f)
              @ '' ''
              @ (case lastName p of None \<Rightarrow> ''undefined'' | Some l \<Rightarrow> l)
              @ (fields @ tail))"
    by (simp add: createSystemMessage_def createSystemMessage_prompt_def userDetails_lines
          fields_def tail_def interpolate_def Let_def)
  ultimately show ?thesis
    by blast
qed

section \<open>Failures\<close>

text \<open>
  Claim C3. A failure of the LLM invocation is the failure of the turn: the node returns
  that error and no reply. A search that raises leaves the memory text empty, and the turn
  ends as it does with no store configured. The outcome of the turn does not depend on
  what \<^verbatim>\<open>put\<close> answers: with a \<^verbatim>\<open>put\<close> that always raises it is the outcome with
  one that succeeds. A profile lookup that raises gives the empty state update.
\<close>

theorem failure_handling:
  "(getLLMService (env rt) reg = (Inr service, reg')
      \<and> invoke rt
           (getModel (env rt) service
              (case configurable config of None \<Rightarrow> None | Some c \<Rightarrow> model c))
           (createSystemMessage (env rt)
              (Some (fst (retrieveMemories (store config) (resolve_clientId config))))
              (user state)
              (case configurable config of None \<Rightarrow> None | Some c \<Rightarrow> systemPrompt c)
            # messages state) = Inl e
    \<longrightarrow> result (conversationNode rt reg state config) = Inl e)
   \<and> (search st [''memories'', resolve_clientId config] 10 = Inl e1
    \<longrightarrow> fst (retrieveMemories (Some st) (resolve_clientId config)) = []
      \<and> result (conversationNode rt reg state (config\<lparr>store := Some st\<rparr>))
          = result (conversationNode rt reg state (config\<lparr>store := None\<rparr>)))
   \<and> ((\<forall>namespace key v. put st2 namespace key v = Inl e2)
    \<longrightarrow> result (conversationNode rt reg state (config\<lparr>store := Some st2\<rparr>))
          = result (conversationNode rt reg state
                     (config\<lparr>store := Some (st2\<lparr>put := (\<lambda>namespace key v. Inr ())\<rparr>)\<rparr>)))
   \<and> (getSembleService (env rt) reg = (lookup, reg3)
      \<and> configurable config = Some c \<and> clientId c = Some cid \<and> cid \<noteq> []
      \<and> lookup cid = Inl e3
    \<longrightarrow> result (fetchUserNode rt reg state config) = Inr empty_Update)"
proof (intro conjI impI)
  assume "getLLMService (env rt) reg = (Inr service, reg')
      \<and> invoke rt
           (getModel (env rt) service
              (case configurable config of None \<Rightarrow> None | Some c \<Rightarrow> model c))
           (createSystemMessage (env rt)
              (Some (fst (retrieveMemories (store config) (resolve_clientId config))))
              (user state)
              (case configurable config of None \<Rightarrow> None | Some c \<Rightarrow> systemPrompt c)
            # messages state) = Inl e"
  then have g: "getLLMService (env rt) reg = (Inr service, reg')"
    and i: "invoke rt
           (getModel (env rt) service
              (case configurable config of None \<Rightarrow> None | Some c \<Rightarrow> model c))
           (createSystemMessage (env rt)
              (Some (fst (retrieveMemories (store config) (resolve_clientId config))))
              (user state)
              (case configurable config of None \<Rightarrow> None | Some c \<Rightarrow> systemPrompt c)
            # messages state) = Inl e"
    by simp_all
  show "result (conversationNode rt reg state config) = Inl e"
    by (simp add: conversationNode_result [OF g] i)
next
  assume s: "search st [''memories'', resolve_clientId config] 10 = Inl e1"
  then show "fst (retrieveMemories (Some st) (resolve_clientId config)) = []"
    by (rule retrieveMemories_fallback(2))
  from s show "result (conversationNode rt reg state (config\<lparr>store := Some st\<rparr>))
          = result (conversationNode rt reg state (config\<lparr>store := None\<rparr>))"
    by (rule result_search_fails)
next
  show "result (conversationNode rt reg state (config\<lparr>store := Some st2\<rparr>))
          = result (conversationNode rt reg state
                     (config\<lparr>store := Some (st2\<lparr>put := (\<lambda>namespace key v. Inr ())\<rparr>)\<rparr>))"
    by (simp only: result_independent_of_put)
next
  assume a: "getSembleService (env rt) reg = (lookup, reg3)
      \<and> configurable config = Some c \<and> clientId c = Some cid \<and> cid \<noteq> []
      \<and> lookup cid = Inl e3"
  have "fetchUserNode rt reg state config
           = \<lparr>result = Inr empty_Update, calls = [GetUser cid], providers = reg3\<rparr>"
    by (rule fetchUserNode_lookup_fails [where service = lookup and c = c and e = e3])
       (simp_all add: a)
  then show "result (fetchUserNode rt reg state config) = Inr empty_Update"
    by simp
qed

theorem failure_handling_witness:
  "result (conversationNode ex_Runtime_llm_down initial_Providers ex_state ex_config)
     = Inl (Error ''provider unavailable'')
   \<and> search ex_store_down [''memories'', ''client-1''] 10 = Inl (Error ''store unavailable'')
   \<and> result (conversationNode ex_Runtime initial_Providers ex_state
               (ex_config\<lparr>store := Some ex_store_down\<rparr>))
       = Inr \<lparr>messages_Update = Some [ex_reply], user_Update = None\<rparr>
   \<and> (\<forall>namespace key v. put ex_store_down namespace key v = Inl (Error ''store unavailable''))
   \<and> result (conversationNode ex_Runtime initial_Providers ex_state
               (ex_config\<lparr>store := Some (ex_store_down\<lparr>put := (\<lambda>namespace key v. Inr ())\<rparr>)\<rparr>))
       = Inr \<lparr>messages_Update = Some [ex_reply], user_Update = None\<rparr>
   \<and> RealSembleService ''client-1'' = Inl (Error ''Real Semble integration not implemented yet'')
   \<and> result (fetchUserNode ex_Runtime_real_semble initial_Providers ex_state ex_config)
       = Inr empty_Update"
proof -
  have cid: "resolve_clientId ex_config = ''client-1''"
    by (simp add: resolve_clientId_def ex_config_def)
  have s: "search ex_store_down [''memories'', resolve_clientId ex_config] 10
             = Inl (Error ''store unavailable'')"
    by (simp add: ex_store_down_def)
  have p: "\<forall>namespace key v. put ex_store_down namespace key v = Inl (Error ''store unavailable'')"
    by (simp add: ex_store_down_def)
  have r: "RealSembleService ''client-1'' = Inl (Error ''Real Semble integration not implemented yet'')"
    by (simp add: RealSembleService_def)
  have none: "result (conversationNode ex_Runtime initial_Providers ex_state (ex_config\<lparr>store := None\<rparr>))
                = Inr \<lparr>messages_Update = Some [ex_reply], user_Update = None\<rparr>"
    by (simp add: conversationNode_result [OF ex_getLLMService] ex_invoke)
  note g = ex_getLLMService_llm_down
  have a: "result (conversationNode ex_Runtime_llm_down initial_Providers ex_state ex_config)
             = Inl (Error ''provider unavailable'')"
    using failure_handling [where rt = ex_Runtime_llm_down and reg = initial_Providers
        and config = ex_config and state = ex_state and e = "Error ''provider unavailable''"
        and service = "\<lparr>apiKey = ''sk-test'', baseURL = DEFAULT_BASE_URL\<rparr>"
        and reg' = "\<lparr>sembleService = None,
                       llmService = Some \<lparr>apiKey = ''sk-test'', baseURL = DEFAULT_BASE_URL\<rparr>\<rparr>",
        THEN conjunct1]
    by (simp add: g ex_invoke_llm_down)
  have b: "result (conversationNode ex_Runtime initial_Providers ex_state
               (ex_config\<lparr>store := Some ex_store_down\<rparr>))
       = result (conversationNode ex_Runtime initial_Providers ex_state (ex_config\<lparr>store := None\<rparr>))"
    using failure_handling [where rt = ex_Runtime and reg = initial_Providers
        and config = ex_config and state = ex_state and st = ex_store_down
        and ?e1.0 = "Error ''store unavailable''",
        THEN conjunct2, THEN conjunct1] s
    by simp
  have c: "result (conversationNode ex_Runtime initial_Providers ex_state
               (ex_config\<lparr>store := Some ex_store_down\<rparr>))
       = result (conversationNode ex_Runtime initial_Providers ex_state
               (ex_config\<lparr>store := Some (ex_store_down\<lparr>put := (\<lambda>namespace key v. Inr ())\<rparr>)\<rparr>))"
    using failure_handling [where rt = ex_Runtime and reg = initial_Providers
        and config = ex_config and state = ex_state and ?st2.0 = ex_store_down
        and ?e2.0 = "Error ''store unavailable''",
        THEN conjunct2, THEN conjunct2, THEN conjunct1] p
    by simp
  have d: "result (fetchUserNode ex_Runtime_real_semble initial_Providers ex_state ex_config)
       = Inr empty_Update"
    using failure_handling [where rt = ex_Runtime_real_semble and reg = initial_Providers
        and config = ex_config and state = ex_state and lookup = RealSembleService
        and ?reg3.0 = "\<lparr>sembleService = Some RealSembleService, llmService = None\<rparr>"
        and c = "\<lparr>model = None, clientId = Some ''client-1'', systemPrompt = None\<rparr>"
        and cid = "''client-1''"
        and ?e3.0 = "Error ''Real Semble integration not implemented yet''",
        THEN conjunct2, THEN conjunct2, THEN conjunct2]
    by (simp add: ex_getSembleService_real r ex_config_def)
  from a b c d s p r none show ?thesis
    by (simp add: cid)
qed

section \<open>Which message the write policy examines\<close>

text \<open>
  Claim C4. The write policy is to decide from the last user-authored message of the
  incoming list, and to store that message. The source takes the last message of the
  list, \<^verbatim>\<open>state.messages.at(-1)\<close>, and does not look at its role. When the list ends
  with an assistant message the two differ: after the user message "hi" and the assistant
  message "I will remember that" the node stores the assistant message, and after the
  user message "Please remember I like tea" and the assistant message "Noted." it stores
  nothing.
\<close>

theorem write_policy_ignores_role:
  "last_user_authored (messages ex_state_assistant_last)
     = Some \<lparr>role = User, content = Str ''hi''\<rparr>
   \<and> puts (calls (conversationNode ex_Runtime initial_Providers ex_state_assistant_last ex_config))
     = [Put [''memories'', ''client-1''] ''mem_1762000000123''
          \<lparr>text_Item = ''I will remember that'',
           createdAt = ''2025-11-01T12:26:40.123Z''\<rparr>]
   \<and> last_user_authored (messages ex_state_reply_last)
     = Some \<lparr>role = User, content = Str ''Please remember I like tea''\<rparr>
   \<and> puts (calls (conversationNode ex_Runtime initial_Providers ex_state_reply_last ex_config))
     = []"
proof -
  have i: "includes_String (toLowerCase ''I will remember that'') ''remember''"
    by code_simp
  have a: "puts (calls (conversationNode ex_Runtime initial_Providers ex_state_assistant_last ex_config))
     = [Put [''memories'', ''client-1''] ''mem_1762000000123''
          \<lparr>text_Item = ''I will remember that'',
           createdAt = ''2025-11-01T12:26:40.123Z''\<rparr>]"
    unfolding puts_conversationNode [OF ex_assistant_last_result] storeMemory_spec
    using i ex_digits unfolding includes_toLowerCase
    by (simp add: at_last_def ex_state_assistant_last_def ex_config_def resolve_clientId_def
          ex_Runtime_def)
  have b: "last_user_authored (messages ex_state_assistant_last)
     = Some \<lparr>role = User, content = Str ''hi''\<rparr>"
    by (simp add: last_user_authored_def at_last_def ex_state_assistant_last_def)
  have "\<not> includes_String (toLowerCase ''Noted.'') ''remember''"
    by code_simp
  then have n: "\<not> (\<exists>w. sublist w ''Noted.'' \<and> toLowerCase w = ''remember'')"
    unfolding includes_toLowerCase .
  have c: "puts (calls (conversationNode ex_Runtime initial_Providers ex_state_reply_last ex_config))
     = []"
    unfolding puts_conversationNode [OF ex_reply_last_result] storeMemory_spec
    using n
    by (simp add: at_last_def ex_state_reply_last_def)
  have d: "last_user_authored (messages ex_state_reply_last)
     = Some \<lparr>role = User, content = Str ''Please remember I like tea''\<rparr>"
    by (simp add: last_user_authored_def at_last_def ex_state_reply_last_def)
  from a b c d show ?thesis
    by simp
qed

section \<open>The state update of the conversation node\<close>

text \<open>
  Claim C5. Whenever the conversation node returns an update, the update holds exactly
  one message, and merging it into the state appends that message: the messages before
  the turn are a prefix of the messages after it, which are one more.
\<close>

theorem single_message_delta:
  assumes "result (conversationNode rt reg state config) = Inr upd"
  shows "\<exists>response. messages_Update upd = Some [response]
           \<and> messages (applyUpdate state upd) = messages state @ [response]
           \<and> prefix (messages state) (messages (applyUpdate state upd))
           \<and> length (messages (applyUpdate state upd)) = length (messages state) + 1"
proof -
  from conversationNode_Inr [OF assms]
  obtain response where "upd = \<lparr>messages_Update = Some [response], user_Update = None\<rparr>"
    by blast
  then show ?thesis
    by (simp add: applyUpdate_conversation)
qed

theorem single_message_delta_witness:
  "result (conversationNode ex_Runtime initial_Providers ex_state ex_config)
     = Inr \<lparr>messages_Update = Some [ex_reply], user_Update = None\<rparr>
   \<and> messages (applyUpdate ex_state \<lparr>messages_Update = Some [ex_reply], user_Update = None\<rparr>)
     = [\<lparr>role = User, content = Str ''Please remember I like tea''\<rparr>, ex_reply]"
proof -
  note h = ex_run_result
  from single_message_delta [OF h] h show ?thesis
    by (simp add: ex_state_def)
qed

section \<open>A configuration without a client id\<close>

text \<open>
  Claim C7, as the code has it. Without a \<^verbatim>\<open>clientId\<close> in the configuration, the
  conversation node resolves the client id to "default" and every search and every
  \<^verbatim>\<open>put\<close> it makes is in the namespace \<^verbatim>\<open>["memories", "default"]\<close>; the profile-fetch
  node skips the lookup: it calls nothing and returns the empty update, without an error.
\<close>

theorem missing_clientId_default:
  assumes "configurable config = None \<or> (\<exists>c. configurable config = Some c \<and> clientId c = None)"
  shows "resolve_clientId config = ''default''
       \<and> (\<forall>c \<in> set (calls (conversationNode rt reg state config)).
             case c of
               Search namespace limit \<Rightarrow> namespace = [''memories'', ''default'']
             | Put namespace key v \<Rightarrow> namespace = [''memories'', ''default'']
             | _ \<Rightarrow> True)
       \<and> result (fetchUserNode rt reg state config) = Inr empty_Update
       \<and> calls (fetchUserNode rt reg state config) = []"
proof (intro conjI ballI)
  show d: "resolve_clientId config = ''default''"
    using assms by (rule resolve_clientId_default)
  show "result (fetchUserNode rt reg state config) = Inr empty_Update"
    using fetchUserNode_missing_clientId [OF assms] by simp
  show "calls (fetchUserNode rt reg state config) = []"
    using fetchUserNode_missing_clientId [OF assms] by simp
  fix c
  assume "c \<in> set (calls (conversationNode rt reg state config))"
  from conversationNode_calls_subset [OF this]
  show "case c of
          Search namespace limit \<Rightarrow> namespace = [''memories'', ''default'']
        | Put namespace key v \<Rightarrow> namespace = [''memories'', ''default'']
        | _ \<Rightarrow> True"
  proof (elim disjE exE)
    assume "c \<in> set (snd (retrieveMemories (store config) (resolve_clientId config)))"
    from retrieveMemories_only_searches [OF this] d show ?thesis
      by simp
  next
    fix llm input
    assume "c = Invoke llm input"
    then show ?thesis
      by simp
  next
    assume "c \<in> set (storeMemory rt (store config) (resolve_clientId config) (messages state))"
    from storeMemory_only_puts [OF this] d show ?thesis
      by auto
  qed
qed

theorem missing_clientId_default_witness:
  "configurable ex_config_no_clientId = None
   \<and> resolve_clientId ex_config_no_clientId = ''default''
   \<and> Search [''memories'', ''default''] 10
       \<in> set (calls (conversationNode ex_Runtime initial_Providers ex_state ex_config_no_clientId))
   \<and> Put [''memories'', ''default''] ''mem_1762000000123''
          \<lparr>text_Item = ''Please remember I like tea'',
           createdAt = ''2025-11-01T12:26:40.123Z''\<rparr>
       \<in> set (calls (conversationNode ex_Runtime initial_Providers ex_state ex_config_no_clientId))
   \<and> result (fetchUserNode ex_Runtime initial_Providers ex_state ex_config_no_clientId)
       = Inr empty_Update"
proof -
  have c: "configurable ex_config_no_clientId = None"
    by (simp add: ex_config_no_clientId_def)
  then have h: "configurable ex_config_no_clientId = None
              \<or> (\<exists>c. configurable ex_config_no_clientId = Some c \<and> clientId c = None)"
    by simp
  from missing_clientId_default [OF h, of ex_Runtime initial_Providers ex_state] c
  show ?thesis
    by (simp add: ex_no_clientId_calls)
qed

text \<open>
  The claim as it was stated has the profile fetch proceed with "default". It does not:
  with no client id the node makes no lookup, although the service would answer one.
\<close>

theorem profile_fetch_default_counterexample:
  "configurable ex_config_no_clientId = None
   \<and> MockSembleService ''default'' \<noteq> Inr None
   \<and> fetchUserNode ex_Runtime initial_Providers ex_state ex_config_no_clientId
       = \<lparr>result = Inr empty_Update, calls = [],
          providers = \<lparr>sembleService = Some MockSembleService, llmService = None\<rparr>\<rparr>"
proof -
  have g: "getSembleService (env ex_Runtime) initial_Providers
             = (MockSembleService, \<lparr>sembleService = Some MockSembleService, llmService = None\<rparr>)"
    by (simp add: getSembleService_def createSembleService_def initial_Providers_def
          ex_Runtime_def ex_env_def Let_def)
  have c: "configurable ex_config_no_clientId = None"
    by (simp add: ex_config_no_clientId_def)
  from fetchUserNode_no_configurable [OF g c] c show ?thesis
    by (simp add: MockSembleService_def)
qed

section \<open>The missing credential\<close>

text \<open>
  Claim C8, as the code has it. The constructor of the LLM service raises the
  configuration error exactly when the credential is unset or empty. The service is
  constructed on the first call of \<^verbatim>\<open>getLLMService\<close>, the first step of a conversation
  turn: with no credential and no service in the registry the turn fails with that
  error before any call to the store or the provider, and the registry stays as it was.
  With a credential the service and the model are resolved without an error and the
  turn reaches the provider.
\<close>

theorem credential_error_at_construction:
  "(new_OpenRouterLLMService e
      = Inl (Error ''OPENROUTER_API_KEY environment variable is required.''))
     = (\<not> truthy (OPENROUTER_API_KEY e))
   \<and> (\<not> truthy (OPENROUTER_API_KEY (env rt)) \<and> llmService reg = None
      \<longrightarrow> conversationNode rt reg state config
            = \<lparr>result = Inl (Error ''OPENROUTER_API_KEY environment variable is required.''),
               calls = [], providers = reg\<rparr>)
   \<and> (truthy (OPENROUTER_API_KEY (env rt))
      \<longrightarrow> (\<exists>service reg' input.
             getLLMService (env rt) reg = (Inr service, reg')
           \<and> Invoke (getModel (env rt) service
                       (case configurable config of None \<Rightarrow> None | Some c \<Rightarrow> model c)) input
               \<in> set (calls (conversationNode rt reg state config))))"
proof (intro conjI impI)
  show "(new_OpenRouterLLMService e
      = Inl (Error ''OPENROUTER_API_KEY environment variable is required.''))
     = (\<not> truthy (OPENROUTER_API_KEY e))"
    by (rule new_OpenRouterLLMService_Inl)
next
  assume "\<not> truthy (OPENROUTER_API_KEY (env rt)) \<and> llmService reg = None"
  then have "getLLMService (env rt) reg
           = (Inl (Error ''OPENROUTER_API_KEY environment variable is required.''), reg)"
    by (simp add: getLLMService_no_key)
  then show "conversationNode rt reg state config
            = \<lparr>result = Inl (Error ''OPENROUTER_API_KEY environment variable is required.''),
               calls = [], providers = reg\<rparr>"
    by (rule conversationNode_no_service)
next
  assume "truthy (OPENROUTER_API_KEY (env rt))"
  from getLLMService_key [OF this]
  obtain service reg' where g: "getLLMService (env rt) reg = (Inr service, reg')"
    by blast
  have "Invoke (getModel (env rt) service
                       (case configurable config of None \<Rightarrow> None | Some c \<Rightarrow> model c))
          (createSystemMessage (env rt)
             (Some (fst (retrieveMemories (store config) (resolve_clientId config))))
             (user state)
             (case configurable config of None \<Rightarrow> None | Some c \<Rightarrow> systemPrompt c)
           # messages state)
         \<in> set (calls (conversationNode rt reg state config))"
    unfolding conversationNode_calls_eq [OF g] by simp
  with g show "\<exists>service reg' input.
             getLLMService (env rt) reg = (Inr service, reg')
           \<and> Invoke (getModel (env rt) service
                       (case configurable config of None \<Rightarrow> None | Some c \<Rightarrow> model c)) input
               \<in> set (calls (conversationNode rt reg state config))"
    by blast
qed

theorem credential_error_at_construction_witness:
  "\<not> truthy (OPENROUTER_API_KEY (env ex_Runtime_no_key))
   \<and> llmService initial_Providers = None
   \<and> new_OpenRouterLLMService (env ex_Runtime_no_key)
       = Inl (Error ''OPENROUTER_API_KEY environment variable is required.'')
   \<and> conversationNode ex_Runtime_no_key initial_Providers ex_state ex_config
       = \<lparr>result = Inl (Error ''OPENROUTER_API_KEY environment variable is required.''),
          calls = [], providers = initial_Providers\<rparr>
   \<and> truthy (OPENROUTER_API_KEY (env ex_Runtime))
   \<and> (\<exists>service reg' input.
         getLLMService (env ex_Runtime) initial_Providers = (Inr service, reg')
       \<and> Invoke (getModel (env ex_Runtime) service
                   (case configurable ex_config of None \<Rightarrow> None | Some c \<Rightarrow> model c)) input
           \<in> set (calls (conversationNode ex_Runtime initial_Providers ex_state ex_config)))"
proof -
  have n: "llmService initial_Providers = None"
    by (simp add: initial_Providers_def)
  note t1 = credential_error_at_construction
    [where e = "env ex_Runtime_no_key" and rt = ex_Runtime_no_key and reg = initial_Providers
       and state = ex_state and config = ex_config]
  note t2 = credential_error_at_construction
    [where e = "env ex_Runtime" and rt = ex_Runtime and reg = initial_Providers
       and state = ex_state and config = ex_config]
  from t1 ex_no_key n
  have a: "new_OpenRouterLLMService (env ex_Runtime_no_key)
       = Inl (Error ''OPENROUTER_API_KEY environment variable is required.'')"
    and b: "conversationNode ex_Runtime_no_key initial_Providers ex_state ex_config
       = \<lparr>result = Inl (Error ''OPENROUTER_API_KEY environment variable is required.''),
          calls = [], providers = initial_Providers\<rparr>"
    by blast+
  from t2 ex_key
  have c: "\<exists>service reg' input.
         getLLMService (env ex_Runtime) initial_Providers = (Inr service, reg')
       \<and> Invoke (getModel (env ex_Runtime) service
                   (case configurable ex_config of None \<Rightarrow> None | Some c \<Rightarrow> model c)) input
           \<in> set (calls (conversationNode ex_Runtime initial_Providers ex_state ex_config))"
    by blast
  from ex_no_key n a b ex_key c show ?thesis
    by blast
qed

text \<open>
  The claim as it was stated places the error at process startup. Loading the modules
  constructs no service: the registry starts with no LLM service, and the error is the
  result of the first turn.
\<close>

theorem credential_error_at_startup_counterexample:
  "OPENROUTER_API_KEY (env ex_Runtime_no_key) = None
   \<and> llmService initial_Providers = None
   \<and> conversationNode ex_Runtime_no_key initial_Providers ex_state ex_config
       = \<lparr>result = Inl (Error ''OPENROUTER_API_KEY environment variable is required.''),
          calls = [], providers = initial_Providers\<rparr>"
proof -
  have n: "llmService initial_Providers = None"
    by (simp add: initial_Providers_def)
  have k: "OPENROUTER_API_KEY (env ex_Runtime_no_key) = None"
    by (simp add: ex_Runtime_no_key_def)
  from conversationNode_no_service [OF getLLMService_no_key [OF ex_no_key n]] n k
  show ?thesis
    by simp
qed

section \<open>The profile channel\<close>

text \<open>
  Claim C9. Whenever the conversation node returns an update, the update has no
  \<^verbatim>\<open>user\<close> key, and merging it leaves the profile of the state as it was. The reducer of
  the channel is \<^verbatim>\<open>new ?? old\<close>: an update with a profile replaces the stored one, an
  update with \<^verbatim>\<open>null\<close> keeps it.
\<close>

theorem profile_untouched:
  assumes "result (conversationNode rt reg state config) = Inr upd"
  shows "user_Update upd = None
       \<and> user (applyUpdate state upd) = user state
       \<and> (\<forall>old new. user_reducer old new = (case new of None \<Rightarrow> old | Some p \<Rightarrow> Some p))
       \<and> (\<forall>new. user (applyUpdate state \<lparr>messages_Update = None, user_Update = Some new\<rparr>)
                  = (case new of None \<Rightarrow> user state | Some p \<Rightarrow> Some p))"
proof -
  from conversationNode_Inr [OF assms]
  obtain response where "upd = \<lparr>messages_Update = Some [response], user_Update = None\<rparr>"
    by blast
  then show ?thesis
    by (simp add: applyUpdate_conversation applyUpdate_def user_reducer_def split: option.splits)
qed

theorem profile_untouched_witness:
  "result (conversationNode ex_Runtime initial_Providers (ex_state\<lparr>user := Some ex_jane\<rparr>) ex_config)
     = Inr \<lparr>messages_Update = Some [ex_reply], user_Update = None\<rparr>
   \<and> user (applyUpdate (ex_state\<lparr>user := Some ex_jane\<rparr>)
             \<lparr>messages_Update = Some [ex_reply], user_Update = None\<rparr>) = Some ex_jane"
proof -
  have h: "result (conversationNode ex_Runtime initial_Providers (ex_state\<lparr>user := Some ex_jane\<rparr>) ex_config)
     = Inr \<lparr>messages_Update = Some [ex_reply], user_Update = None\<rparr>"
    by (simp add: conversationNode_result [OF ex_getLLMService] ex_invoke)
  from profile_untouched [OF h] h show ?thesis
    by simp
qed

end
